theory Spec2Isabelle
  imports Complex_Main "HOL-Library.Word" "HOL-Library.Sublist"
begin

section \<open>Array elements\<close>

text \<open>
  The arrays of \<^verbatim>\<open>norm.py\<close> hold IEEE doubles. An element is modelled as a finite
  real number, one of the two infinities, or NaN. Arithmetic on finite values is exact
  (no rounding, no overflow to infinity) and zero is unsigned and behaves as \<open>+0\<close>, which
  is the zero that \<^verbatim>\<open>vmax - vmin\<close>, \<^verbatim>\<open>exp - 1\<close> and \<^verbatim>\<open>np.log(1.0)\<close> produce. The special
  values follow IEEE 754 as numpy implements it: numpy warns on a division by zero or an
  invalid operation and returns an infinity or NaN; it does not raise.

  The scalar parameters (\<^verbatim>\<open>vmin\<close>, \<^verbatim>\<open>vmax\<close>, \<^verbatim>\<open>bias\<close>, \<^verbatim>\<open>contrast\<close>, \<^verbatim>\<open>exp\<close>) are
  finite numbers, of type \<^typ>\<open>real\<close>.
\<close>

datatype fval = Fin real | PInf | NInf | NaN

fun fadd :: "fval \<Rightarrow> fval \<Rightarrow> fval" where
  "fadd NaN _ = NaN"
| "fadd _ NaN = NaN"
| "fadd (Fin a) (Fin b) = Fin (a + b)"
| "fadd PInf NInf = NaN"
| "fadd NInf PInf = NaN"
| "fadd PInf _ = PInf"
| "fadd NInf _ = NInf"
| "fadd _ PInf = PInf"
| "fadd _ NInf = NInf"

fun fsub :: "fval \<Rightarrow> fval \<Rightarrow> fval" where
  "fsub NaN _ = NaN"
| "fsub _ NaN = NaN"
| "fsub (Fin a) (Fin b) = Fin (a - b)"
| "fsub PInf PInf = NaN"
| "fsub NInf NInf = NaN"
| "fsub PInf _ = PInf"
| "fsub NInf _ = NInf"
| "fsub _ PInf = NInf"
| "fsub _ NInf = PInf"

fun fmul :: "fval \<Rightarrow> fval \<Rightarrow> fval" where
  "fmul NaN _ = NaN"
| "fmul _ NaN = NaN"
| "fmul (Fin a) (Fin b) = Fin (a * b)"
| "fmul PInf (Fin b) = (if 0 < b then PInf else if b < 0 then NInf else NaN)"
| "fmul NInf (Fin b) = (if 0 < b then NInf else if b < 0 then PInf else NaN)"
| "fmul (Fin a) PInf = (if 0 < a then PInf else if a < 0 then NInf else NaN)"
| "fmul (Fin a) NInf = (if 0 < a then NInf else if a < 0 then PInf else NaN)"
| "fmul PInf PInf = PInf"
| "fmul PInf NInf = NInf"
| "fmul NInf PInf = NInf"
| "fmul NInf NInf = PInf"

fun fdiv :: "fval \<Rightarrow> fval \<Rightarrow> fval" where
  "fdiv NaN _ = NaN"
| "fdiv _ NaN = NaN"
| "fdiv (Fin a) (Fin b) =
     (if b \<noteq> 0 then Fin (a / b)
      else if 0 < a then PInf else if a < 0 then NInf else NaN)"
| "fdiv (Fin a) PInf = Fin 0"
| "fdiv (Fin a) NInf = Fin 0"
| "fdiv PInf (Fin b) = (if 0 \<le> b then PInf else NInf)"
| "fdiv NInf (Fin b) = (if 0 \<le> b then NInf else PInf)"
| "fdiv PInf _ = NaN"
| "fdiv NInf _ = NaN"

text \<open>\<^verbatim>\<open>np.clip(x, lo, hi)\<close> is \<^verbatim>\<open>minimum(maximum(x, lo), hi)\<close>; both propagate NaN.\<close>

fun fclip :: "fval \<Rightarrow> real \<Rightarrow> real \<Rightarrow> fval" where
  "fclip NaN lo hi = NaN"
| "fclip PInf lo hi = Fin hi"
| "fclip NInf lo hi = Fin (min lo hi)"
| "fclip (Fin a) lo hi = Fin (min (max a lo) hi)"

fun flog :: "fval \<Rightarrow> fval" where
  "flog NaN = NaN"
| "flog PInf = PInf"
| "flog NInf = NaN"
| "flog (Fin a) = (if 0 < a then Fin (ln a) else if a = 0 then NInf else NaN)"

fun fsqrt :: "fval \<Rightarrow> fval" where
  "fsqrt NaN = NaN"
| "fsqrt PInf = PInf"
| "fsqrt NInf = NaN"
| "fsqrt (Fin a) = (if 0 \<le> a then Fin (sqrt a) else NaN)"

fun farcsinh :: "fval \<Rightarrow> fval" where
  "farcsinh (Fin a) = Fin (arsinh a)"
| "farcsinh v = v"

fun fsinh :: "fval \<Rightarrow> fval" where
  "fsinh (Fin a) = Fin (sinh a)"
| "fsinh v = v"

definition is_int :: "real \<Rightarrow> bool" where
  "is_int y \<longleftrightarrow> y = of_int \<lfloor>y\<rfloor>"

text \<open>\<^verbatim>\<open>np.power(x, y)\<close> is C's \<^verbatim>\<open>pow\<close>: \<open>pow(x, 0) = 1\<close> and \<open>pow(1, y) = 1\<close> even at NaN.\<close>

fun fpow :: "fval \<Rightarrow> fval \<Rightarrow> fval" where
  "fpow x (Fin y) =
     (if y = 0 then Fin 1
      else case x of
        NaN \<Rightarrow> NaN
      | Fin a \<Rightarrow>
          (if 0 < a then Fin (a powr y)
           else if a = 0 then (if 0 < y then Fin 0 else PInf)
           else if is_int y then Fin ((if odd \<lfloor>y\<rfloor> then - 1 else 1) * ((- a) powr y))
           else NaN)
      | PInf \<Rightarrow> (if 0 < y then PInf else Fin 0)
      | NInf \<Rightarrow> (if 0 < y then (if is_int y \<and> odd \<lfloor>y\<rfloor> then NInf else PInf) else Fin 0))"
| "fpow x PInf =
     (case x of
        NaN \<Rightarrow> NaN
      | Fin a \<Rightarrow> (if \<bar>a\<bar> = 1 then Fin 1 else if \<bar>a\<bar> < 1 then Fin 0 else PInf)
      | _ \<Rightarrow> PInf)"
| "fpow x NInf =
     (case x of
        NaN \<Rightarrow> NaN
      | Fin a \<Rightarrow> (if \<bar>a\<bar> = 1 then Fin 1 else if \<bar>a\<bar> < 1 then PInf else Fin 0)
      | _ \<Rightarrow> Fin 0)"
| "fpow x NaN = (if x = Fin 1 then Fin 1 else NaN)"

text \<open>The comparison \<^verbatim>\<open>x < vmin\<close> of an element with a scalar; false at NaN.\<close>

fun flt :: "fval \<Rightarrow> real \<Rightarrow> bool" where
  "flt (Fin a) b = (a < b)"
| "flt NInf b = True"
| "flt _ b = False"

text \<open>
  \<^verbatim>\<open>astype(np.uint8)\<close> is the C conversion of a double to an unsigned 8-bit integer: the
  value is truncated toward zero. C defines the result only when the truncated value is
  representable; for NaN, an infinity or a value outside \<open>[0, 255]\<close> the byte depends on
  the platform, and the model returns \<open>None\<close> for "not determined by the program".
\<close>

definition trunc_int :: "real \<Rightarrow> int" where
  "trunc_int a = (if 0 \<le> a then \<lfloor>a\<rfloor> else \<lceil>a\<rceil>)"

fun astype_uint8 :: "fval \<Rightarrow> 8 word option" where
  "astype_uint8 (Fin a) =
     (if 0 \<le> trunc_int a \<and> trunc_int a \<le> 255 then Some (word_of_int (trunc_int a)) else None)"
| "astype_uint8 _ = None"

section \<open>The store of arrays\<close>

text \<open>
  Most numpy calls of the module write their result into an existing array (\<^verbatim>\<open>out=\<close>),
  so arrays live in a store and are named by address. \<open>next_free\<close> is the next free
  address; every array the caller holds has an address below it.
\<close>

type_synonym addr = nat

record heap =
  cells :: "addr \<Rightarrow> fval list"
  next_free :: addr

text \<open>An element-wise numpy operation without \<^verbatim>\<open>out=\<close>: the result is a fresh array.\<close>

definition ufunc_new :: "(fval \<Rightarrow> fval) \<Rightarrow> addr \<Rightarrow> heap \<Rightarrow> addr \<times> heap" where
  "ufunc_new f x h =
     (next_free h,
      h\<lparr>cells := (cells h)(next_free h := map f (cells h x)), next_free := Suc (next_free h)\<rparr>)"

text \<open>An element-wise numpy operation with \<^verbatim>\<open>out=out\<close>: array \<open>out\<close> is overwritten.\<close>

definition ufunc_out :: "(fval \<Rightarrow> fval) \<Rightarrow> addr \<Rightarrow> addr \<Rightarrow> heap \<Rightarrow> addr \<times> heap" where
  "ufunc_out f x out h = (out, h\<lparr>cells := (cells h)(out := map f (cells h x))\<rparr>)"

section \<open>The module\<close>

text \<open>\<^verbatim>\<open>norm(x, vmin, vmax)\<close>. The first line allocates; the other two work in place.\<close>

definition norm_arr :: "addr \<Rightarrow> real \<Rightarrow> real \<Rightarrow> heap \<Rightarrow> addr \<times> heap" where
  "norm_arr x vmin vmax h =
     (let (result, h) = ufunc_new (\<lambda>v. fsub v (Fin (1 * vmin))) x h;
          (result, h) = ufunc_out (\<lambda>v. fdiv v (Fin (vmax - vmin))) result result h;
          (result, h) = ufunc_out (\<lambda>v. fclip v 0 1) result result h
      in (result, h))"

text \<open>\<^verbatim>\<open>cscale(x, bias, contrast)\<close>: four operations, all in place on \<open>x\<close>.\<close>

definition cscale :: "addr \<Rightarrow> real \<Rightarrow> real \<Rightarrow> heap \<Rightarrow> addr \<times> heap" where
  "cscale x bias contrast h =
     (let (x, h) = ufunc_out (\<lambda>v. fsub v (Fin bias)) x x h;
          (x, h) = ufunc_out (\<lambda>v. fmul v (Fin contrast)) x x h;
          (x, h) = ufunc_out (\<lambda>v. fadd v (Fin 0.5)) x x h;
          (x, h) = ufunc_out (\<lambda>v. fclip v 0 1) x x h
      in (x, h))"

text \<open>\<^verbatim>\<open>linear_warp\<close>.\<close>

definition linear_warp :: "addr \<Rightarrow> real \<Rightarrow> real \<Rightarrow> real \<Rightarrow> real \<Rightarrow> heap \<Rightarrow> addr \<times> heap" where
  "linear_warp x vmin vmax bias contrast h =
     (let (x, h) = norm_arr x vmin vmax h
      in cscale x bias contrast h)"

text \<open>
  \<^verbatim>\<open>log_warp\<close>; \<open>expo\<close> is the parameter \<^verbatim>\<open>exp\<close>. The mask \<^verbatim>\<open>black\<close> is computed from the
  caller's array and never used. \<^verbatim>\<open>np.log(exp + 1.0)\<close> is numpy's logarithm of a scalar.
\<close>

definition log_warp ::
  "addr \<Rightarrow> real \<Rightarrow> real \<Rightarrow> real \<Rightarrow> real \<Rightarrow> real \<Rightarrow> heap \<Rightarrow> addr \<times> heap" where
  "log_warp x vmin vmax bias contrast expo h =
     (let black = map (\<lambda>v. flt v vmin) (cells h x);
          (x, h) = norm_arr x vmin vmax h;
          (x, h) = ufunc_out (\<lambda>v. fmul (Fin expo) v) x x h;
          (x, h) = ufunc_out (\<lambda>v. fadd v (Fin 1.001)) x x h;
          (x, h) = ufunc_out flog x x h;
          (x, h) = ufunc_out (\<lambda>v. fdiv v (flog (Fin (expo + 1)))) x x h
      in cscale x bias contrast h)"

text \<open>
  \<^verbatim>\<open>pow_warp\<close>. Its division has no \<^verbatim>\<open>out=\<close> and allocates a second array.
  \<^verbatim>\<open>sqrt_warp\<close>, \<^verbatim>\<open>squared_warp\<close>, \<^verbatim>\<open>asinh_warp\<close> and \<^verbatim>\<open>sinh_warp\<close> follow, each
  nested call of the source written as one step.
\<close>

definition pow_warp ::
  "addr \<Rightarrow> real \<Rightarrow> real \<Rightarrow> real \<Rightarrow> real \<Rightarrow> real \<Rightarrow> heap \<Rightarrow> addr \<times> heap" where
  "pow_warp x vmin vmax bias contrast expo h =
     (let (x, h) = norm_arr x vmin vmax h;
          (x, h) = ufunc_out (\<lambda>v. fpow (Fin expo) v) x x h;
          (x, h) = ufunc_out (\<lambda>v. fsub v (Fin 1)) x x h;
          (x, h) = ufunc_new (\<lambda>v. fdiv v (Fin (expo - 1))) x h
      in cscale x bias contrast h)"

definition sqrt_warp :: "addr \<Rightarrow> real \<Rightarrow> real \<Rightarrow> real \<Rightarrow> real \<Rightarrow> heap \<Rightarrow> addr \<times> heap" where
  "sqrt_warp x vmin vmax bias contrast h =
     (let (x, h) = norm_arr x vmin vmax h;
          (x, h) = ufunc_out fsqrt x x h
      in cscale x bias contrast h)"

definition squared_warp :: "addr \<Rightarrow> real \<Rightarrow> real \<Rightarrow> real \<Rightarrow> real \<Rightarrow> heap \<Rightarrow> addr \<times> heap" where
  "squared_warp x vmin vmax bias contrast h =
     (let (x, h) = norm_arr x vmin vmax h;
          (x, h) = ufunc_out (\<lambda>v. fpow v (Fin 2)) x x h
      in cscale x bias contrast h)"

definition asinh_warp :: "addr \<Rightarrow> real \<Rightarrow> real \<Rightarrow> real \<Rightarrow> real \<Rightarrow> heap \<Rightarrow> addr \<times> heap" where
  "asinh_warp x vmin vmax bias contrast h =
     (let (x, h) = norm_arr x vmin vmax h;
          (x, h) = ufunc_out (\<lambda>v. fmul v (Fin 10)) x x h;
          (x, h) = ufunc_out farcsinh x x h;
          (x, h) = ufunc_out (\<lambda>v. fdiv v (Fin 3)) x x h
      in cscale x bias contrast h)"

definition sinh_warp :: "addr \<Rightarrow> real \<Rightarrow> real \<Rightarrow> real \<Rightarrow> real \<Rightarrow> heap \<Rightarrow> addr \<times> heap" where
  "sinh_warp x vmin vmax bias contrast h =
     (let (x, h) = norm_arr x vmin vmax h;
          (x, h) = ufunc_out (\<lambda>v. fmul v (Fin 3)) x x h;
          (x, h) = ufunc_out fsinh x x h;
          (x, h) = ufunc_out (\<lambda>v. fdiv v (Fin 10)) x x h
      in cscale x bias contrast h)"

text \<open>
  The table \<^verbatim>\<open>warpers\<close>, in the order it is written (the order of its keys). The
  dispatcher calls an entry with five arguments, so \<^verbatim>\<open>log_warp\<close> and \<^verbatim>\<open>pow_warp\<close> run
  with their default \<^verbatim>\<open>exp=1000.0\<close>.
\<close>

type_synonym warper = "addr \<Rightarrow> real \<Rightarrow> real \<Rightarrow> real \<Rightarrow> real \<Rightarrow> heap \<Rightarrow> addr \<times> heap"

definition warpers :: "(string \<times> warper) list" where
  "warpers =
     [(''linear'', linear_warp),
      (''log'', \<lambda>x vmin vmax bias contrast. log_warp x vmin vmax bias contrast 1000),
      (''sqrt'', sqrt_warp),
      (''power'', \<lambda>x vmin vmax bias contrast. pow_warp x vmin vmax bias contrast 1000),
      (''squared'', squared_warp),
      (''arcsinh'', asinh_warp),
      (''sinh'', sinh_warp)]"

datatype error = ValueError string

text \<open>
  The text that \<^verbatim>\<open>%s\<close> gives for \<^verbatim>\<open>warpers.keys()\<close> in Python 3:
  \<^verbatim>\<open>dict_keys(['linear', 'log', ...])\<close>.
\<close>

definition py_repr :: "string \<Rightarrow> string" where
  "py_repr s = [CHR 0x27] @ s @ [CHR 0x27]"

fun join :: "string \<Rightarrow> string list \<Rightarrow> string" where
  "join sep [] = []"
| "join sep [s] = s"
| "join sep (s # t # ss) = s @ sep @ join sep (t # ss)"

definition str_keys :: "string list \<Rightarrow> string" where
  "str_keys ks = ''dict_keys(['' @ join '', '' (map py_repr ks) @ ''])''"

text \<open>
  \<^verbatim>\<open>normalize(value, vmin, vmax, bias, contrast, stretch)\<close>. The result of
  \<^verbatim>\<open>astype\<close> is a new array of bytes, returned by value; the store is returned with it.
\<close>

definition normalize_arr ::
  "addr \<Rightarrow> real \<Rightarrow> real \<Rightarrow> real \<Rightarrow> real \<Rightarrow> string \<Rightarrow> heap
     \<Rightarrow> (error + 8 word option list) \<times> heap" where
  "normalize_arr value vmin vmax bias contrast stretch h =
     (let inverted = (vmax \<le> vmin);
          (hi, lo) = (max vmin vmax, min vmin vmax)
      in case map_of warpers stretch of
           None \<Rightarrow>
             (Inl (ValueError (''Invalid stretch option '' @ stretch
                     @ ''. Valid options are '' @ str_keys (map fst warpers))), h)
         | Some warp \<Rightarrow>
             (let (result, h) = warp value lo hi bias contrast h;
                  (result, h) = (if inverted
                                 then ufunc_out (\<lambda>v. fsub (Fin 1) v) result result h
                                 else (result, h));
                  (result, h) = ufunc_out (\<lambda>v. fmul (Fin 255) v) result result h;
                  (result, h) = ufunc_out (\<lambda>v. fclip v 0 255) result result h
              in (Inr (map astype_uint8 (cells h result)), h)))"

section \<open>Notions used in the statements\<close>

text \<open>The clamp of the specification, on real numbers.\<close>

definition clip :: "real \<Rightarrow> real \<Rightarrow> real \<Rightarrow> real" where
  "clip a lo hi = min (max a lo) hi"

text \<open>An element is a number of the unit interval; a finite number.\<close>

fun in_unit :: "fval \<Rightarrow> bool" where
  "in_unit (Fin a) = (0 \<le> a \<and> a \<le> 1)"
| "in_unit _ = False"

fun is_fin :: "fval \<Rightarrow> bool" where
  "is_fin (Fin a) = True"
| "is_fin _ = False"




text \<open>
  What each function does to one element: the composition of the element operations
  of its lines, in order. The lemmas of the next section prove that each function maps
  exactly this over its input array.
\<close>

definition norm_elt :: "real \<Rightarrow> real \<Rightarrow> fval \<Rightarrow> fval" where
  "norm_elt vmin vmax v = fclip (fdiv (fsub v (Fin (1 * vmin))) (Fin (vmax - vmin))) 0 1"

definition cscale_elt :: "real \<Rightarrow> real \<Rightarrow> fval \<Rightarrow> fval" where
  "cscale_elt bias contrast v =
     fclip (fadd (fmul (fsub v (Fin bias)) (Fin contrast)) (Fin 0.5)) 0 1"

definition log_elt :: "real \<Rightarrow> fval \<Rightarrow> fval" where
  "log_elt expo v = fdiv (flog (fadd (fmul (Fin expo) v) (Fin 1.001))) (flog (Fin (expo + 1)))"

definition pow_elt :: "real \<Rightarrow> fval \<Rightarrow> fval" where
  "pow_elt expo v = fdiv (fsub (fpow (Fin expo) v) (Fin 1)) (Fin (expo - 1))"

definition asinh_elt :: "fval \<Rightarrow> fval" where
  "asinh_elt v = fdiv (farcsinh (fmul v (Fin 10))) (Fin 3)"

definition sinh_elt :: "fval \<Rightarrow> fval" where
  "sinh_elt v = fdiv (fsinh (fmul v (Fin 3))) (Fin 10)"

definition stretch_elt :: "string \<Rightarrow> fval \<Rightarrow> fval" where
  "stretch_elt stretch v =
     (if stretch = ''linear'' then v
      else if stretch = ''log'' then log_elt 1000 v
      else if stretch = ''sqrt'' then fsqrt v
      else if stretch = ''power'' then pow_elt 1000 v
      else if stretch = ''squared'' then fpow v (Fin 2)
      else if stretch = ''arcsinh'' then asinh_elt v
      else sinh_elt v)"

text \<open>
  The last lines of \<^verbatim>\<open>normalize\<close>, from \<^verbatim>\<open>if inverted:\<close> on, applied to what the
  stretch function returned; and their effect on one element.
\<close>

definition finish_stage :: "bool \<Rightarrow> addr \<times> heap \<Rightarrow> (error + 8 word option list) \<times> heap" where
  "finish_stage inverted rh =
     (let (result, h) = rh;
          (result, h) = (if inverted
                         then ufunc_out (\<lambda>v. fsub (Fin 1) v) result result h
                         else (result, h));
          (result, h) = ufunc_out (\<lambda>v. fmul (Fin 255) v) result result h;
          (result, h) = ufunc_out (\<lambda>v. fclip v 0 255) result result h
      in (Inr (map astype_uint8 (cells h result)), h))"

definition quant_elt :: "bool \<Rightarrow> fval \<Rightarrow> 8 word option" where
  "quant_elt inverted v =
     astype_uint8 (fclip (fmul (Fin 255) (if inverted then fsub (Fin 1) v else v)) 0 255)"

definition stretch_names :: "string set" where
  "stretch_names = {''linear'', ''log'', ''sqrt'', ''power'', ''squared'', ''arcsinh'', ''sinh''}"

definition error_message :: "string \<Rightarrow> string" where
  "error_message stretch =
     ''Invalid stretch option '' @ stretch @ ''. Valid options are '' @ str_keys (map fst warpers)"

text \<open>
  Two output bytes are complementary up to the truncation of the last step: they add up
  to 255, or to 254. A byte that the program does not determine is complementary to
  nothing.
\<close>

definition inverted_pair :: "8 word option \<Rightarrow> 8 word option \<Rightarrow> bool" where
  "inverted_pair p q =
     (case (p, q) of
        (Some a, Some b) \<Rightarrow> unat a + unat b = 255 \<or> unat a + unat b = 254
      | _ \<Rightarrow> False)"

text \<open>A store that holds one array, at address 0.\<close>

definition heap_of :: "fval list \<Rightarrow> heap" where
  "heap_of xs = \<lparr>cells = (\<lambda>_. [])(0 := xs), next_free = 1\<rparr>"

section \<open>Lemmas\<close>

subsection \<open>Each function as one map over its input array\<close>

lemma norm_arr_eq: "norm_arr x vmin vmax h = ufunc_new (norm_elt vmin vmax) x h"
  by (simp add: norm_arr_def ufunc_new_def ufunc_out_def comp_def norm_elt_def [abs_def])

lemma cscale_eq: "cscale x bias contrast h = ufunc_out (cscale_elt bias contrast) x x h"
  by (simp add: cscale_def ufunc_out_def comp_def cscale_elt_def [abs_def])

lemma linear_warp_eq:
  "linear_warp x vmin vmax bias contrast h =
     ufunc_new (\<lambda>v. cscale_elt bias contrast (norm_elt vmin vmax v)) x h"
  by (simp add: linear_warp_def norm_arr_eq cscale_eq ufunc_new_def ufunc_out_def comp_def)

lemma log_warp_eq:
  "log_warp x vmin vmax bias contrast expo h =
     ufunc_new (\<lambda>v. cscale_elt bias contrast (log_elt expo (norm_elt vmin vmax v))) x h"
  by (simp del: flog.simps add: log_warp_def norm_arr_eq cscale_eq ufunc_new_def ufunc_out_def comp_def log_elt_def)

lemma sqrt_warp_eq:
  "sqrt_warp x vmin vmax bias contrast h =
     ufunc_new (\<lambda>v. cscale_elt bias contrast (fsqrt (norm_elt vmin vmax v))) x h"
  by (simp add: sqrt_warp_def norm_arr_eq cscale_eq ufunc_new_def ufunc_out_def comp_def)

lemma squared_warp_eq:
  "squared_warp x vmin vmax bias contrast h =
     ufunc_new (\<lambda>v. cscale_elt bias contrast (fpow (norm_elt vmin vmax v) (Fin 2))) x h"
  by (simp add: squared_warp_def norm_arr_eq cscale_eq ufunc_new_def ufunc_out_def comp_def)

lemma asinh_warp_eq:
  "asinh_warp x vmin vmax bias contrast h =
     ufunc_new (\<lambda>v. cscale_elt bias contrast (asinh_elt (norm_elt vmin vmax v))) x h"
  by (simp add: asinh_warp_def norm_arr_eq cscale_eq ufunc_new_def ufunc_out_def comp_def asinh_elt_def)

lemma sinh_warp_eq:
  "sinh_warp x vmin vmax bias contrast h =
     ufunc_new (\<lambda>v. cscale_elt bias contrast (sinh_elt (norm_elt vmin vmax v))) x h"
  by (simp add: sinh_warp_def norm_arr_eq cscale_eq ufunc_new_def ufunc_out_def comp_def sinh_elt_def)

lemma pow_warp_eq:
  "pow_warp x vmin vmax bias contrast expo h =
     (Suc (next_free h),
      h\<lparr>cells := (cells h)
           (next_free h := map (\<lambda>v. fsub (fpow (Fin expo) (norm_elt vmin vmax v)) (Fin 1)) (cells h x),
            Suc (next_free h) :=
              map (\<lambda>v. cscale_elt bias contrast (pow_elt expo (norm_elt vmin vmax v))) (cells h x)),
        next_free := Suc (Suc (next_free h))\<rparr>)"
  by (simp add: pow_warp_def norm_arr_eq cscale_eq ufunc_new_def ufunc_out_def comp_def pow_elt_def)

subsection \<open>The element functions on numbers\<close>



lemma clip_unit: "0 \<le> clip a 0 1 \<and> clip a 0 1 \<le> 1"
  by (simp add: clip_def)

lemma norm_elt_unit: "vmin \<noteq> vmax \<Longrightarrow> v \<noteq> NaN \<Longrightarrow> in_unit (norm_elt vmin vmax v)"
  by (cases v) (simp_all add: norm_elt_def)



lemma norm_elt_degenerate:
  "norm_elt b b v =
     (case v of Fin a \<Rightarrow> (if b < a then Fin 1 else if a < b then Fin 0 else NaN)
      | PInf \<Rightarrow> Fin 1 | NInf \<Rightarrow> Fin 0 | NaN \<Rightarrow> NaN)"
  by (cases v) (simp_all add: norm_elt_def)

lemma cscale_elt_Fin:
  "cscale_elt bias contrast (Fin a) = Fin (clip ((a - bias) * contrast + 0.5) 0 1)"
  by (simp add: cscale_elt_def clip_def)

lemma cscale_elt_unit: "is_fin v \<Longrightarrow> in_unit (cscale_elt bias contrast v)"
  by (cases v) (simp_all add: cscale_elt_Fin clip_unit)

lemma log_elt_Fin:
  "0 < expo \<Longrightarrow> 0 \<le> t \<Longrightarrow>
     log_elt expo (Fin t) = Fin (ln (expo * t + 1.001) / ln (expo + 1))"
proof -
  assume e: "0 < expo" and t: "0 \<le> t"
  have "0 \<le> expo * t" using e t by simp
  then have pos: "0 < expo * t + 1.001" by (simp add: add_nonneg_pos)
  have "0 < ln (expo + 1)" using e by simp
  then have nz: "ln (expo + 1) \<noteq> 0" by simp
  show ?thesis using pos nz e by (simp add: log_elt_def)
qed

lemma pow_elt_Fin:
  "expo \<noteq> 1 \<Longrightarrow> 0 < expo \<Longrightarrow> pow_elt expo (Fin t) = Fin ((expo powr t - 1) / (expo - 1))"
  by (simp add: pow_elt_def)

lemma squared_elt_Fin: "0 \<le> t \<Longrightarrow> fpow (Fin t) (Fin 2) = Fin (t\<^sup>2)"
  by (simp add: is_int_def)

lemma asinh_elt_Fin: "asinh_elt (Fin t) = Fin (arsinh (t * 10) / 3)"
  by (simp add: asinh_elt_def)

lemma sinh_elt_Fin: "sinh_elt (Fin t) = Fin (sinh (t * 3) / 10)"
  by (simp add: sinh_elt_def)

lemma stretch_elt_fin: "in_unit v \<Longrightarrow> is_fin (stretch_elt stretch v)"
  by (cases v)
     (simp_all add: stretch_elt_def log_elt_Fin pow_elt_Fin squared_elt_Fin asinh_elt_Fin
        sinh_elt_Fin)

lemma pipeline_unit:
  assumes "lo \<noteq> hi" and "v \<noteq> NaN"
  shows "in_unit (cscale_elt bias contrast (stretch_elt stretch (norm_elt lo hi v)))"
  using assms by (intro cscale_elt_unit stretch_elt_fin norm_elt_unit)

lemma in_unit_FinE:
  assumes "in_unit v"
  obtains t where "v = Fin t" "0 \<le> t" "t \<le> 1"
  using assms by (cases v) simp_all

subsection \<open>The table of stretch functions\<close>

lemma map_of_warpers_None: "(map_of warpers stretch = None) = (stretch \<notin> stretch_names)"
  by (simp add: warpers_def stretch_names_def)

lemma map_of_warpers_Some: "stretch \<in> stretch_names \<Longrightarrow> \<exists>warp. map_of warpers stretch = Some warp"
  using map_of_warpers_None [of stretch] by auto



lemma warp_cells:
  assumes "map_of warpers stretch = Some warp"
  shows "cells (snd (warp x lo hi bias contrast h)) (fst (warp x lo hi bias contrast h)) =
           map (\<lambda>v. cscale_elt bias contrast (stretch_elt stretch (norm_elt lo hi v))) (cells h x)"
  using assms
  by (auto simp: warpers_def stretch_elt_def linear_warp_eq log_warp_eq sqrt_warp_eq pow_warp_eq
        squared_warp_eq asinh_warp_eq sinh_warp_eq ufunc_new_def split: if_splits)

lemma warp_frame:
  assumes "map_of warpers stretch = Some warp" and "a < next_free h"
  shows "cells (snd (warp x lo hi bias contrast h)) a = cells h a"
  using assms
  by (auto simp: warpers_def linear_warp_eq log_warp_eq sqrt_warp_eq pow_warp_eq
        squared_warp_eq asinh_warp_eq sinh_warp_eq ufunc_new_def split: if_splits)

lemma warp_fresh:
  assumes "map_of warpers stretch = Some warp"
  shows "next_free h \<le> fst (warp x lo hi bias contrast h)
       \<and> next_free h < next_free (snd (warp x lo hi bias contrast h))"
  using assms
  by (auto simp: warpers_def linear_warp_eq log_warp_eq sqrt_warp_eq pow_warp_eq
        squared_warp_eq asinh_warp_eq sinh_warp_eq ufunc_new_def split: if_splits)

subsection \<open>Truncation to a byte\<close>

lemma floor_255:
  assumes "0 \<le> t" "t \<le> (1::real)"
  shows "0 \<le> \<lfloor>255 * t\<rfloor> \<and> \<lfloor>255 * t\<rfloor> \<le> 255"
proof -
  have "0 \<le> 255 * t" using assms by simp
  then have a: "0 \<le> \<lfloor>255 * t\<rfloor>" by simp
  have "255 * t \<le> 255" using assms by simp
  then have "\<lfloor>255 * t\<rfloor> \<le> \<lfloor>255::real\<rfloor>" by (rule floor_mono)
  then have b: "\<lfloor>255 * t\<rfloor> \<le> 255" by simp
  from a b show ?thesis by simp
qed


lemma floor_complement:
  "\<lfloor>255 * (1 - t)\<rfloor> + \<lfloor>255 * t\<rfloor> = 255 \<or> \<lfloor>255 * (1 - t)\<rfloor> + \<lfloor>255 * t\<rfloor> = 254" for t :: real
proof -
  have "255 * (1 - t) = - (255 * t) + of_int 255" by simp
  then have "\<lfloor>255 * (1 - t)\<rfloor> = \<lfloor>- (255 * t)\<rfloor> + 255" by (metis floor_add_int)
  moreover have "\<lfloor>- (255 * t)\<rfloor> = - \<lceil>255 * t\<rceil>" by (simp add: ceiling_def)
  moreover have "\<lceil>255 * t\<rceil> - \<lfloor>255 * t\<rfloor> \<le> 1" by (rule ceiling_diff_floor_le_1)
  moreover have "\<lfloor>255 * t\<rfloor> \<le> \<lceil>255 * t\<rceil>" by (rule floor_le_ceiling)
  ultimately show ?thesis by linarith
qed

lemma take_bit_byte: "0 \<le> k \<Longrightarrow> k \<le> 255 \<Longrightarrow> take_bit 8 k = (k::int)"
  by (rule take_bit_int_eq_self) simp_all


lemma unat_byte_of_int:
  assumes "0 \<le> k" "k \<le> 255"
  shows "unat (word_of_int k :: 8 word) = nat k"
  using assms by (simp add: unsigned_of_int take_bit_byte)

lemma quant_elt_Fin:
  assumes "0 \<le> t" "t \<le> 1"
  shows "quant_elt False (Fin t) = Some (word_of_int \<lfloor>255 * t\<rfloor>)"
proof -
  have m: "min (max (255 * t) 0) 255 = 255 * t" using assms by (simp add: min_def max_def)
  have p: "0 \<le> 255 * t" using assms by simp
  show ?thesis using m p floor_255 [OF assms] by (simp add: quant_elt_def trunc_int_def)
qed

lemma quant_elt_Fin_inverted:
  assumes "0 \<le> t" "t \<le> 1"
  shows "quant_elt True (Fin t) = Some (word_of_int \<lfloor>255 * (1 - t)\<rfloor>)"
proof -
  have a: "0 \<le> 1 - t" "1 - t \<le> 1" using assms by simp_all
  have "quant_elt True (Fin t) = quant_elt False (Fin (1 - t))" by (simp add: quant_elt_def)
  then show ?thesis using quant_elt_Fin [OF a] by simp
qed

lemma inverted_pair_quant:
  assumes "in_unit v"
  shows "inverted_pair (quant_elt True v) (quant_elt False v)"
proof -
  from assms obtain t where v: "v = Fin t" and t: "0 \<le> t" "t \<le> 1" by (rule in_unit_FinE)
  have c: "0 \<le> 1 - t" "1 - t \<le> 1" using t by simp_all
  have "unat (word_of_int \<lfloor>255 * (1 - t)\<rfloor> :: 8 word) = nat \<lfloor>255 * (1 - t)\<rfloor>"
    using floor_255 [OF c] by (intro unat_byte_of_int) simp_all
  moreover have "unat (word_of_int \<lfloor>255 * t\<rfloor> :: 8 word) = nat \<lfloor>255 * t\<rfloor>"
    using floor_255 [OF t] by (intro unat_byte_of_int) simp_all
  moreover have "nat \<lfloor>255 * (1 - t)\<rfloor> + nat \<lfloor>255 * t\<rfloor> = 255
               \<or> nat \<lfloor>255 * (1 - t)\<rfloor> + nat \<lfloor>255 * t\<rfloor> = 254"
    using floor_complement [of t] floor_255 [OF t] floor_255 [OF c] by linarith
  ultimately show ?thesis
    using v t by (simp add: inverted_pair_def quant_elt_Fin quant_elt_Fin_inverted)
qed

subsection \<open>The dispatcher\<close>

lemma normalize_arr_Some:
  assumes "map_of warpers stretch = Some warp"
  shows "normalize_arr value vmin vmax bias contrast stretch h =
           finish_stage (vmax \<le> vmin)
             (warp value (min vmin vmax) (max vmin vmax) bias contrast h)"
  using assms by (simp add: normalize_arr_def finish_stage_def)

lemma normalize_arr_None:
  "stretch \<notin> stretch_names \<Longrightarrow>
     normalize_arr value vmin vmax bias contrast stretch h = (Inl (ValueError (error_message stretch)), h)"
  using map_of_warpers_None [of stretch] by (simp add: normalize_arr_def error_message_def)

lemma finish_stage_fst:
  "fst (finish_stage inverted (r, h)) = Inr (map (quant_elt inverted) (cells h r))"
  by (simp add: finish_stage_def ufunc_out_def quant_elt_def [abs_def] comp_def)

lemma finish_stage_frame:
  "a \<noteq> r \<Longrightarrow> cells (snd (finish_stage inverted (r, h))) a = cells h a"
  by (simp add: finish_stage_def ufunc_out_def)

lemma normalize_arr_out:
  assumes "map_of warpers stretch = Some warp"
  shows "fst (normalize_arr value vmin vmax bias contrast stretch h) =
           Inr (map (\<lambda>v. quant_elt (vmax \<le> vmin)
                          (cscale_elt bias contrast
                             (stretch_elt stretch (norm_elt (min vmin vmax) (max vmin vmax) v))))
                  (cells h value))"
proof -
  obtain r h1 where w: "warp value (min vmin vmax) (max vmin vmax) bias contrast h = (r, h1)"
    by (cases "warp value (min vmin vmax) (max vmin vmax) bias contrast h")
  from warp_cells [OF assms, of "value" "min vmin vmax" "max vmin vmax" bias contrast h] w
  have "cells h1 r = map (\<lambda>v. cscale_elt bias contrast
                             (stretch_elt stretch (norm_elt (min vmin vmax) (max vmin vmax) v)))
                  (cells h value)" by simp
  then show ?thesis
    by (simp add: normalize_arr_Some [OF assms] w finish_stage_fst comp_def)
qed

lemma normalize_arr_frame:
  assumes "a < next_free h"
  shows "cells (snd (normalize_arr value vmin vmax bias contrast stretch h)) a = cells h a"
proof (cases "map_of warpers stretch")
  case None
  then show ?thesis by (simp add: normalize_arr_def)
next
  case (Some warp)
  obtain r h1 where w: "warp value (min vmin vmax) (max vmin vmax) bias contrast h = (r, h1)"
    by (cases "warp value (min vmin vmax) (max vmin vmax) bias contrast h")
  from warp_fresh [OF Some, of h "value" "min vmin vmax" "max vmin vmax" bias contrast] w assms
  have "a \<noteq> r" by simp
  moreover from warp_frame [OF Some assms, of "value" "min vmin vmax" "max vmin vmax" bias contrast] w
  have "cells h1 a = cells h a" by simp
  ultimately show ?thesis
    by (simp add: normalize_arr_Some [OF Some] w finish_stage_frame)
qed

subsection \<open>The error message\<close>







section \<open>The claims\<close>

subsection \<open>C1: the bounds handed to the stretch function\<close>

text \<open>
  C1, amended. For every call of \<^verbatim>\<open>normalize\<close> with a recognised stretch name, the
  stretch function is called with \<open>lo = min vmin vmax\<close> and \<open>hi = max vmin vmax\<close>. These
  satisfy \<open>lo \<le> hi\<close>, and \<open>lo < hi\<close> exactly when \<open>vmin \<noteq> vmax\<close>. When \<open>vmin = vmax\<close> the two
  bounds are equal and the division in \<^verbatim>\<open>norm\<close> is by zero; numpy returns an infinity or
  NaN there and raises nothing, so after the clip an element above the bound is 1, an
  element below it is 0, and an element equal to it is NaN.
\<close>

theorem normalize_arr_bounds:
  assumes "map_of warpers stretch = Some warp"
  shows "normalize_arr value vmin vmax bias contrast stretch h =
           finish_stage (vmax \<le> vmin)
             (warp value (min vmin vmax) (max vmin vmax) bias contrast h)
       \<and> min vmin vmax \<le> max vmin vmax
       \<and> (min vmin vmax < max vmin vmax \<longleftrightarrow> vmin \<noteq> vmax)
       \<and> (vmin = vmax \<longrightarrow>
            norm_arr value (min vmin vmax) (max vmin vmax) h =
              ufunc_new (\<lambda>v. case v of
                            Fin a \<Rightarrow> (if vmin < a then Fin 1 else if a < vmin then Fin 0 else NaN)
                          | PInf \<Rightarrow> Fin 1 | NInf \<Rightarrow> Fin 0 | NaN \<Rightarrow> NaN) value h)"
proof -
  have d: "vmin = vmax \<longrightarrow>
            norm_arr value (min vmin vmax) (max vmin vmax) h =
              ufunc_new (\<lambda>v. case v of
                            Fin a \<Rightarrow> (if vmin < a then Fin 1 else if a < vmin then Fin 0 else NaN)
                          | PInf \<Rightarrow> Fin 1 | NInf \<Rightarrow> Fin 0 | NaN \<Rightarrow> NaN) value h"
  proof
    assume eq: "vmin = vmax"
    have "norm_elt vmax vmax =
            (\<lambda>v. case v of
                   Fin a \<Rightarrow> (if vmax < a then Fin 1 else if a < vmax then Fin 0 else NaN)
                 | PInf \<Rightarrow> Fin 1 | NInf \<Rightarrow> Fin 0 | NaN \<Rightarrow> NaN)"
      by (rule ext) (rule norm_elt_degenerate)
    then have "norm_arr value (min vmax vmax) (max vmax vmax) h =
              ufunc_new (\<lambda>v. case v of
                            Fin a \<Rightarrow> (if vmax < a then Fin 1 else if a < vmax then Fin 0 else NaN)
                          | PInf \<Rightarrow> Fin 1 | NInf \<Rightarrow> Fin 0 | NaN \<Rightarrow> NaN) value h"
      by (simp add: norm_arr_eq)
    then show "norm_arr value (min vmin vmax) (max vmin vmax) h =
              ufunc_new (\<lambda>v. case v of
                            Fin a \<Rightarrow> (if vmin < a then Fin 1 else if a < vmin then Fin 0 else NaN)
                          | PInf \<Rightarrow> Fin 1 | NInf \<Rightarrow> Fin 0 | NaN \<Rightarrow> NaN) value h"
      unfolding eq .
  qed
  have a: "normalize_arr value vmin vmax bias contrast stretch h =
           finish_stage (vmax \<le> vmin)
             (warp value (min vmin vmax) (max vmin vmax) bias contrast h)"
    by (rule normalize_arr_Some [OF assms])
  have b: "min vmin vmax \<le> max vmin vmax" by simp
  have c: "min vmin vmax < max vmin vmax \<longleftrightarrow> vmin \<noteq> vmax" by auto
  from a b c d show ?thesis by blast
qed

theorem normalize_arr_bounds_witness:
  "map_of warpers ''linear'' = Some linear_warp
   \<and> normalize_arr 0 2 5 0.5 1 ''linear'' (heap_of [Fin 3]) =
       finish_stage False (linear_warp 0 2 5 0.5 1 (heap_of [Fin 3]))
   \<and> normalize_arr 0 5 5 0.5 1 ''linear'' (heap_of [Fin 3]) =
       finish_stage True (linear_warp 0 5 5 0.5 1 (heap_of [Fin 3]))
   \<and> norm_arr 0 5 5 (heap_of [Fin 3, Fin 5, Fin 7]) =
       (1, \<lparr>cells = (\<lambda>_. [])(0 := [Fin 3, Fin 5, Fin 7], 1 := [Fin 0, NaN, Fin 1]), next_free = 2\<rparr>)"
proof -
  have m: "map_of warpers ''linear'' = Some linear_warp" by (simp add: warpers_def)
  from normalize_arr_bounds [OF m, of 0 2 5 "0.5" 1 "heap_of [Fin 3]"]
  have a: "normalize_arr 0 2 5 0.5 1 ''linear'' (heap_of [Fin 3]) =
       finish_stage False (linear_warp 0 2 5 0.5 1 (heap_of [Fin 3]))" by simp
  from normalize_arr_bounds [OF m, of 0 5 5 "0.5" 1 "heap_of [Fin 3]"]
  have b: "normalize_arr 0 5 5 0.5 1 ''linear'' (heap_of [Fin 3]) =
       finish_stage True (linear_warp 0 5 5 0.5 1 (heap_of [Fin 3]))" by simp
  from normalize_arr_bounds [OF m, of 0 5 5 "0.5" 1 "heap_of [Fin 3, Fin 5, Fin 7]"]
  have c: "norm_arr 0 5 5 (heap_of [Fin 3, Fin 5, Fin 7]) =
       (1, \<lparr>cells = (\<lambda>_. [])(0 := [Fin 3, Fin 5, Fin 7], 1 := [Fin 0, NaN, Fin 1]), next_free = 2\<rparr>)"
    by (simp add: ufunc_new_def heap_of_def)
  from m a b c show ?thesis by blast
qed

text \<open>
  C1 as stated fails at \<open>vmin = vmax = 0\<close>: the dispatcher calls \<^verbatim>\<open>linear_warp\<close> with
  \<open>lo = hi = 0\<close>, the division of \<^verbatim>\<open>norm\<close> is \<open>0 / 0\<close>, and the NaN it yields reaches the
  conversion to a byte.
\<close>

theorem normalize_arr_bounds_counterexample:
  "map_of warpers ''linear'' = Some linear_warp
   \<and> normalize_arr 0 0 0 0.5 1 ''linear'' (heap_of [Fin 0]) =
       finish_stage (0 \<le> (0::real)) (linear_warp 0 (min 0 0) (max 0 0) 0.5 1 (heap_of [Fin 0]))
   \<and> \<not> (min 0 0 < max 0 (0::real))
   \<and> fdiv (fsub (Fin 0) (Fin (1 * min 0 0))) (Fin (max 0 0 - min 0 0)) = NaN
   \<and> fst (normalize_arr 0 0 0 0.5 1 ''linear'' (heap_of [Fin 0])) = Inr [None]"
  by (simp add: warpers_def normalize_arr_def finish_stage_def linear_warp_def norm_arr_def
        cscale_def ufunc_new_def ufunc_out_def heap_of_def)

subsection \<open>C2: the one error\<close>



subsection \<open>C3: the normalizer\<close>




subsection \<open>C4: the defaults on \<^verbatim>\<open>[0, 0.5, 1]\<close>\<close>



subsection \<open>C5: inverted bounds\<close>

text \<open>
  C5, amended. For every input array, every bias and contrast and every recognised
  stretch name, at each element that is not NaN the byte \<open>a\<close> of
  \<^verbatim>\<open>normalize(x, 1, 0, ...)\<close> and the byte \<open>b\<close> of \<^verbatim>\<open>normalize(x, 0, 1, ...)\<close> satisfy
  \<open>a + b = 255\<close> or \<open>a + b = 254\<close>: \<open>a\<close> is \<open>255 - b\<close> up to the truncation of the last
  step.
\<close>

theorem normalize_arr_inverted:
  assumes "stretch \<in> {''linear'', ''log'', ''sqrt'', ''power'', ''squared'', ''arcsinh'', ''sinh''}"
      and "i < length (cells h value)" and "cells h value ! i \<noteq> NaN"
  shows "\<exists>inv dir. fst (normalize_arr value 1 0 bias contrast stretch h) = Inr inv
          \<and> fst (normalize_arr value 0 1 bias contrast stretch h) = Inr dir
          \<and> length inv = length (cells h value) \<and> length dir = length (cells h value)
          \<and> inverted_pair (inv ! i) (dir ! i)"
proof -
  from assms(1) obtain warp where m: "map_of warpers stretch = Some warp"
    using map_of_warpers_Some [of stretch] by (auto simp: stretch_names_def)
  let ?g = "\<lambda>v. cscale_elt bias contrast (stretch_elt stretch (norm_elt 0 1 v))"
  have inv: "fst (normalize_arr value 1 0 bias contrast stretch h) =
               Inr (map (\<lambda>v. quant_elt True (?g v)) (cells h value))"
    using normalize_arr_out [OF m, of "value" 1 0 bias contrast h] by simp
  have dir: "fst (normalize_arr value 0 1 bias contrast stretch h) =
               Inr (map (\<lambda>v. quant_elt False (?g v)) (cells h value))"
    using normalize_arr_out [OF m, of "value" 0 1 bias contrast h] by simp
  have "in_unit (?g (cells h value ! i))"
    using assms(3) by (intro pipeline_unit) simp_all
  then have "inverted_pair (quant_elt True (?g (cells h value ! i)))
                           (quant_elt False (?g (cells h value ! i)))"
    by (rule inverted_pair_quant)
  then show ?thesis using inv dir assms(2) by simp
qed

theorem normalize_arr_inverted_witness:
  "''arcsinh'' \<in> {''linear'', ''log'', ''sqrt'', ''power'', ''squared'', ''arcsinh'', ''sinh''}
   \<and> 1 < length (cells (heap_of [NaN, Fin (1/3)]) 0)
   \<and> cells (heap_of [NaN, Fin (1/3)]) 0 ! 1 \<noteq> NaN
   \<and> (\<exists>inv dir. fst (normalize_arr 0 1 0 0.3 2 ''arcsinh'' (heap_of [NaN, Fin (1/3)])) = Inr inv
          \<and> fst (normalize_arr 0 0 1 0.3 2 ''arcsinh'' (heap_of [NaN, Fin (1/3)])) = Inr dir
          \<and> inverted_pair (inv ! 1) (dir ! 1))"
proof -
  have a: "''arcsinh'' \<in> {''linear'', ''log'', ''sqrt'', ''power'', ''squared'', ''arcsinh'', ''sinh''}"
    by simp
  have b: "1 < length (cells (heap_of [NaN, Fin (1/3)]) 0)" by (simp add: heap_of_def)
  have c: "cells (heap_of [NaN, Fin (1/3)]) 0 ! 1 \<noteq> NaN" by (simp add: heap_of_def)
  from normalize_arr_inverted [OF a b c, of "0.3" 2] a b c show ?thesis by blast
qed

text \<open>
  C5 as stated fails for the array \<^verbatim>\<open>[nan]\<close>: in both calls NaN reaches the conversion
  to a byte, and neither output byte is determined.
\<close>

theorem normalize_arr_inverted_counterexample:
  "fst (normalize_arr 0 1 0 0.5 1 ''linear'' (heap_of [NaN])) = Inr [None]
   \<and> fst (normalize_arr 0 0 1 0.5 1 ''linear'' (heap_of [NaN])) = Inr [None]
   \<and> \<not> inverted_pair None None"
  by (simp add: warpers_def normalize_arr_def linear_warp_def norm_arr_def
        cscale_def ufunc_new_def ufunc_out_def heap_of_def inverted_pair_def)

subsection \<open>C6: the range of the stretch functions\<close>



subsection \<open>C7: the log stretch\<close>

text \<open>
  C7. Where \<^verbatim>\<open>norm\<close> yields \<open>t\<close> in \<open>[0, 1]\<close>, \<^verbatim>\<open>log_warp\<close> yields
  \<open>clip((ln(exp * t + 1.001) / ln(exp + 1) - bias) * contrast + 0.5, 0, 1)\<close>, for every
  \<open>exp > 0\<close>: it is \<^verbatim>\<open>norm\<close>, then the logarithm formula on each element, then
  \<^verbatim>\<open>cscale\<close>. The entry of \<^verbatim>\<open>warpers\<close> runs it with \<open>exp = 1000\<close>.
\<close>

theorem log_warp_formula:
  assumes "0 < expo" and "norm_arr x vmin vmax h = (n, hn)"
      and "log_warp x vmin vmax bias contrast expo h = (r, hr)"
      and "i < length (cells hn n)" and "cells hn n ! i = Fin t" and "0 \<le> t" and "t \<le> 1"
  shows "cells hr r ! i =
           Fin (clip ((ln (expo * t + 1.001) / ln (expo + 1) - bias) * contrast + 0.5) 0 1)
       \<and> log_warp x vmin vmax bias contrast expo h =
           (let (y, h1) = norm_arr x vmin vmax h;
                (y, h2) = ufunc_out (\<lambda>v. fdiv (flog (fadd (fmul (Fin expo) v) (Fin 1.001)))
                                              (flog (Fin (expo + 1)))) y y h1
            in cscale y bias contrast h2)
       \<and> map_of warpers ''log'' =
           Some (\<lambda>x vmin vmax bias contrast. log_warp x vmin vmax bias contrast 1000)"
proof -
  have n: "cells hn n = map (norm_elt vmin vmax) (cells h x)"
    using assms(2) by (auto simp: norm_arr_eq ufunc_new_def)
  have r: "cells hr r =
      map (\<lambda>v. cscale_elt bias contrast (log_elt expo (norm_elt vmin vmax v))) (cells h x)"
    using assms(3) by (auto simp: log_warp_eq ufunc_new_def)
  have i: "i < length (cells h x)" using assms(4) n by simp
  have "cells hr r ! i = cscale_elt bias contrast (log_elt expo (cells hn n ! i))"
    using r n i by simp
  also have "\<dots> = cscale_elt bias contrast (Fin (ln (expo * t + 1.001) / ln (expo + 1)))"
    using assms(1,5,6) by (simp only: log_elt_Fin)
  finally have a: "cells hr r ! i =
           Fin (clip ((ln (expo * t + 1.001) / ln (expo + 1) - bias) * contrast + 0.5) 0 1)"
    by (simp only: cscale_elt_Fin)
  have b: "log_warp x vmin vmax bias contrast expo h =
           (let (y, h1) = norm_arr x vmin vmax h;
                (y, h2) = ufunc_out (\<lambda>v. fdiv (flog (fadd (fmul (Fin expo) v) (Fin 1.001)))
                                              (flog (Fin (expo + 1)))) y y h1
            in cscale y bias contrast h2)"
    by (simp del: flog.simps add: log_warp_def norm_arr_eq ufunc_new_def ufunc_out_def comp_def)
  have c: "map_of warpers ''log'' =
           Some (\<lambda>x vmin vmax bias contrast. log_warp x vmin vmax bias contrast 1000)"
    by (simp add: warpers_def)
  from a b c show ?thesis by blast
qed

theorem log_warp_formula_witness:
  "(0::real) < 1000
   \<and> norm_arr 0 0 2 (heap_of [Fin 1]) =
       (1, \<lparr>cells = (\<lambda>_. [])(0 := [Fin 1], 1 := [Fin (1/2)]), next_free = 2\<rparr>)
   \<and> cells (snd (log_warp 0 0 2 0.5 1 1000 (heap_of [Fin 1])))
            (fst (log_warp 0 0 2 0.5 1 1000 (heap_of [Fin 1]))) ! 0 =
       Fin (clip ((ln (1000 * (1/2) + 1.001) / ln (1000 + 1) - 0.5) * 1 + 0.5) 0 1)"
proof -
  let ?h = "heap_of [Fin 1]"
  let ?hn = "\<lparr>cells = (\<lambda>_. [])(0 := [Fin 1], 1 := [Fin (1/2)]), next_free = 2\<rparr>"
  have a: "(0::real) < 1000" by simp
  have b: "norm_arr 0 0 2 ?h = (1, ?hn)"
    by (simp add: norm_arr_def ufunc_new_def ufunc_out_def heap_of_def)
  have c: "log_warp 0 0 2 0.5 1 1000 ?h =
             (fst (log_warp 0 0 2 0.5 1 1000 ?h), snd (log_warp 0 0 2 0.5 1 1000 ?h))" by simp
  have d: "0 < length (cells ?hn 1)" by simp
  have e: "cells ?hn 1 ! 0 = Fin (1/2)" by simp
  have f: "(0::real) \<le> 1/2" "(1/2::real) \<le> 1" by simp_all
  from log_warp_formula [OF a b c d e f] a b show ?thesis by blast
qed

subsection \<open>C8: the contrast and bias adjuster\<close>



subsection \<open>C9: nothing happens before the error\<close>

text \<open>
  C9. When the stretch name is not recognised, \<^verbatim>\<open>normalize\<close> returns the error and the
  store it was given: no array has been allocated or written, so no stretch function has
  run and the caller's array is unchanged.
\<close>

theorem normalize_arr_error_atomic:
  assumes "stretch \<notin> {''linear'', ''log'', ''sqrt'', ''power'', ''squared'', ''arcsinh'', ''sinh''}"
  shows "\<exists>e. normalize_arr value vmin vmax bias contrast stretch h = (Inl e, h)"
  using assms normalize_arr_None [of stretch] by (simp add: stretch_names_def)

theorem normalize_arr_error_atomic_witness:
  "''bogus'' \<notin> {''linear'', ''log'', ''sqrt'', ''power'', ''squared'', ''arcsinh'', ''sinh''}
   \<and> (\<exists>e. normalize_arr 0 0 1 0.5 1 ''bogus'' (heap_of [Fin 3, NaN]) = (Inl e, heap_of [Fin 3, NaN]))"
proof -
  have n: "''bogus'' \<notin> {''linear'', ''log'', ''sqrt'', ''power'', ''squared'', ''arcsinh'', ''sinh''}"
    by simp
  from normalize_arr_error_atomic [OF n, of 0 0 1 "0.5" 1 "heap_of [Fin 3, NaN]"] n
  show ?thesis by simp
qed

subsection \<open>C10: the last step truncates\<close>



end
